theory Spec2Isabelle
  imports Main "HOL-Library.Multiset" "HOL-Library.Sublist" "HOL-Library.Word"
begin

section \<open>Values shared by the storage and route layers\<close>

text \<open>
  A \<open>Buffer\<close> is a sequence of bytes. A value caught by a \<open>catch\<close> clause is either an
  \<open>Error\<close> object carrying its \<open>message\<close>, or some other thrown value; the route
  handlers read it with \<open>error instanceof Error ? error.message : 'Unknown error'\<close>.
\<close>

type_synonym Buffer = "8 word list"

datatype thrown = Error string | NonError

definition error_message :: "thrown \<Rightarrow> string" where
  "error_message error = (case error of Error message \<Rightarrow> message | NonError \<Rightarrow> ''Unknown error'')"

text \<open>
  The array destructuring \<open>const [x] = rows\<close>: the first element, or \<open>undefined\<close> when
  the array is empty.
\<close>

definition destructure_first :: "'a list \<Rightarrow> 'a option" where
  "destructure_first rows = (case rows of [] \<Rightarrow> None | x # _ \<Rightarrow> Some x)"


section \<open>The schema (\<open>@shared/schema\<close>)\<close>

text \<open>
  Modelled from the spec: the module \<open>@shared/schema\<close> is not among the sources. The row
  and payload types below carry exactly the fields that \<open>storage.ts\<close> and \<open>routes.ts\<close>
  read and write. \<open>TableData\<close> stays a type parameter \<open>'d\<close>; \<open>TableInfo\<close> is a record of
  which only \<open>pageNumber\<close> is used by the sources, so it is left extensible and the
  parameter \<open>'i\<close> is instantiated with a \<open>TableInfo\<close> scheme where the route reads
  \<open>table.info.pageNumber\<close>.
\<close>

record TableInfo =
  pageNumber :: int

record ('d, 'i) ExtractedTableData =
  tableIndex :: int
  data :: 'd
  info :: 'i

record DocumentData =
  filename :: string
  filesize :: int
  uploadDate :: string

text \<open>The JSON object the extract route answers with on success.\<close>

record ('d, 'i) ExtractResult =
  documentId :: int
  filename :: string
  filesize :: int
  uploadDate :: string
  tables :: "('d, 'i) ExtractedTableData list"

record InsertPdfDocument =
  filename :: string
  filesize :: int
  userId :: "int option"

record PdfDocument = InsertPdfDocument +
  id :: int
  uploadDate :: string

record ('d, 'i) InsertExtractedTable =
  documentId :: int
  tableIndex :: int
  pageNumber :: int
  tableData :: 'd
  tableInfo :: 'i

record ('d, 'i) ExtractedTable = "('d, 'i) InsertExtractedTable" +
  id :: int


section \<open>The database handle (\<open>./db\<close>)\<close>

text \<open>
  Modelled from the spec: the module \<open>./db\<close> (the query builder bound to the database)
  is not among the sources. The database holds the two tables the routes use, each as
  the list of its rows in insertion order, together with the sequence that generates
  the next serial \<open>id\<close> of each table. \<open>select().from(t).where(p)\<close> keeps the rows
  satisfying \<open>p\<close>; \<open>orderBy(column)\<close> sorts ascending by that column;
  \<open>insert(t).values(v).returning()\<close> appends one row with the next serial \<open>id\<close> and
  returns it, or throws when the database rejects the values. The \<open>users\<close> table is
  not touched by any route and is left out.
\<close>

record ('d, 'i) Database =
  pdfDocuments :: "PdfDocument list"
  pdfDocuments_id_seq :: int
  extractedTables :: "('d, 'i) ExtractedTable list"
  extractedTables_id_seq :: int

text \<open>
  The collaborators whose code is not among the sources are parameters of the model:
  the extraction and workbook modules, the validation schema, and the conditions under
  which the database rejects an insert (returning the thrown value).
\<close>

record ('d, 'i) Env =
  extractTablesFromPdf :: "Buffer \<Rightarrow> thrown + ('d, 'i) ExtractedTableData list"
  generateExcelFile :: "'d \<Rightarrow> thrown + Buffer"
  generateConsolidatedExcel :: "'d list \<Rightarrow> thrown + Buffer"
  insertPdfDocumentSchema_parse :: "DocumentData \<Rightarrow> thrown + InsertPdfDocument"
  pdfDocuments_rejects :: "('d, 'i) Database \<Rightarrow> InsertPdfDocument \<Rightarrow> thrown option"
  extractedTables_rejects ::
    "('d, 'i) Database \<Rightarrow> ('d, 'i) InsertExtractedTable \<Rightarrow> thrown option"


section \<open>\<open>storage.ts\<close>: class \<open>DatabaseStorage\<close>\<close>

text \<open>
  Every method takes the database state; the two inserting methods return the new state
  together with either the thrown value or the returned row. Reads do not change the
  state. An insert that throws leaves the rows as they were. (Whether a rejected insert
  uses up a value of the sequence shows only as a gap between identifiers; here it uses
  none, and the statements on failing inserts below speak of the rows only.)
\<close>

definition getPdfDocument :: "('d, 'i) Database \<Rightarrow> int \<Rightarrow> PdfDocument option" where
  "getPdfDocument db ident =
     destructure_first (filter (\<lambda>row. PdfDocument.id row = ident) (pdfDocuments db))"

text \<open>\<open>document.userId || null\<close>: an absent and a zero \<open>userId\<close> both become \<open>null\<close>.\<close>

definition userId_or_null :: "int option \<Rightarrow> int option" where
  "userId_or_null u = (case u of None \<Rightarrow> None | Some n \<Rightarrow> if n = 0 then None else Some n)"

definition createPdfDocument ::
  "('d, 'i) Env \<Rightarrow> string \<Rightarrow> ('d, 'i) Database \<Rightarrow> InsertPdfDocument
     \<Rightarrow> ('d, 'i) Database \<times> (thrown + PdfDocument)" where
  "createPdfDocument E now db document =
     (let vals = \<lparr>filename = InsertPdfDocument.filename document,
                  filesize = InsertPdfDocument.filesize document,
                  userId = userId_or_null (userId document)\<rparr>
      in case pdfDocuments_rejects E db vals of
           Some error \<Rightarrow> (db, Inl error)
         | None \<Rightarrow>
             (let pdfDocument =
                    \<lparr>filename = InsertPdfDocument.filename vals,
                     filesize = InsertPdfDocument.filesize vals,
                     userId = userId vals,
                     PdfDocument.id = pdfDocuments_id_seq db,
                     uploadDate = now\<rparr>
              in (db\<lparr>pdfDocuments := pdfDocuments db @ [pdfDocument],
                     pdfDocuments_id_seq := pdfDocuments_id_seq db + 1\<rparr>,
                  Inr pdfDocument)))"

definition getExtractedTable ::
  "('d, 'i) Database \<Rightarrow> int \<Rightarrow> ('d, 'i) ExtractedTable option" where
  "getExtractedTable db ident =
     destructure_first (filter (\<lambda>row. ExtractedTable.id row = ident) (extractedTables db))"

text \<open>The conversion of a row to the \<open>ExtractedTableData\<close> format.\<close>

definition to_ExtractedTableData ::
  "('d, 'i) ExtractedTable \<Rightarrow> ('d, 'i) ExtractedTableData" where
  "to_ExtractedTableData table =
     \<lparr>ExtractedTableData.tableIndex = tableIndex table,
      data = tableData table,
      info = tableInfo table\<rparr>"

definition getExtractedTablesByDocumentId ::
  "('d, 'i) Database \<Rightarrow> int \<Rightarrow> ('d, 'i) ExtractedTableData list" where
  "getExtractedTablesByDocumentId db ident =
     (let tables = sort_key tableIndex
                     (filter (\<lambda>row. documentId row = ident) (extractedTables db))
      in map to_ExtractedTableData tables)"

definition createExtractedTable ::
  "('d, 'i) Env \<Rightarrow> ('d, 'i) Database \<Rightarrow> ('d, 'i) InsertExtractedTable
     \<Rightarrow> ('d, 'i) Database \<times> (thrown + ('d, 'i) ExtractedTable)" where
  "createExtractedTable E db table =
     (case extractedTables_rejects E db table of
        Some error \<Rightarrow> (db, Inl error)
      | None \<Rightarrow>
          (let extractedTable =
                 \<lparr>documentId = documentId table,
                  tableIndex = tableIndex table,
                  pageNumber = pageNumber table,
                  tableData = tableData table,
                  tableInfo = tableInfo table,
                  ExtractedTable.id = extractedTables_id_seq db\<rparr>
           in (db\<lparr>extractedTables := extractedTables db @ [extractedTable],
                  extractedTables_id_seq := extractedTables_id_seq db + 1\<rparr>,
               Inr extractedTable)))"

text \<open>
  The writes the storage interface offers on these two tables, and a run of any number
  of them (whether each one succeeds or throws).
\<close>

datatype ('d, 'i) storage_write =
    CreatePdfDocument string InsertPdfDocument
  | CreateExtractedTable "('d, 'i) InsertExtractedTable"

fun storage_write_step ::
  "('d, 'i) Env \<Rightarrow> ('d, 'i) Database \<Rightarrow> ('d, 'i) storage_write \<Rightarrow> ('d, 'i) Database" where
  "storage_write_step E db (CreatePdfDocument now document) =
     fst (createPdfDocument E now db document)"
| "storage_write_step E db (CreateExtractedTable table) =
     fst (createExtractedTable E db table)"

definition storage_writes ::
  "('d, 'i) Env \<Rightarrow> ('d, 'i) Database \<Rightarrow> ('d, 'i) storage_write list \<Rightarrow> ('d, 'i) Database" where
  "storage_writes E db ws = foldl (storage_write_step E) db ws"

text \<open>
  The serial columns: every stored \<open>id\<close> was handed out by the table's sequence, so it
  lies below the sequence's next value.
\<close>

definition serial_ok :: "('d, 'i) Database \<Rightarrow> bool" where
  "serial_ok db \<longleftrightarrow>
     list_all (\<lambda>row. PdfDocument.id row < pdfDocuments_id_seq db) (pdfDocuments db) \<and>
     list_all (\<lambda>row. ExtractedTable.id row < extractedTables_id_seq db) (extractedTables db)"

definition empty_database :: "('d, 'i) Database" where
  "empty_database =
     \<lparr>pdfDocuments = [], pdfDocuments_id_seq = 1,
      extractedTables = [], extractedTables_id_seq = 1\<rparr>"


section \<open>The HTTP layer\<close>

text \<open>
  A response is the status passed to \<open>res.status\<close>, the headers the handler set with
  \<open>res.setHeader\<close>, and the body passed to \<open>res.json\<close> or \<open>res.send\<close>. The bodies
  are: \<open>{error: m}\<close> (the route handlers), \<open>{error: {message: m}}\<close> (the error
  middleware of \<open>index.ts\<close>), the extract result, and a binary buffer.
\<close>

datatype ('d, 'i) Body =
    ErrorJson string
  | ErrorMessageJson string
  | ExtractJson "('d, 'i) ExtractResult"
  | Sent Buffer

record ('d, 'i) Response =
  status :: nat
  headers :: "string \<rightharpoonup> string"
  body :: "('d, 'i) Body"

definition json_response :: "nat \<Rightarrow> ('d, 'i) Body \<Rightarrow> ('d, 'i) Response" where
  "json_response code b = \<lparr>status = code, headers = Map.empty, body = b\<rparr>"

text \<open>
  \<open>res.setHeader\<close> throws when the value holds a character outside tab, \<open>0x20\<close> to
  \<open>0x7e\<close> and \<open>0x80\<close> to \<open>0xff\<close>; otherwise it records the header.
\<close>

definition checkInvalidHeaderChar :: "string \<Rightarrow> bool" where
  "checkInvalidHeaderChar val =
     list_ex (\<lambda>c. \<not> (c = CHR 0x09 \<or> ((0x20::nat) \<le> of_char c \<and> of_char c \<noteq> (0x7f::nat)))) val"

definition setHeader ::
  "string \<Rightarrow> string \<Rightarrow> (string \<rightharpoonup> string) \<Rightarrow> thrown + (string \<rightharpoonup> string)" where
  "setHeader name val hs =
     (if checkInvalidHeaderChar val then Inl (Error ''Invalid character in header content'')
      else Inr (hs(name \<mapsto> val)))"

text \<open>
  The decimal text of an integer, as a template literal renders a number that is an
  integer, and \<open>String.prototype.replace\<close> with a string pattern, which replaces the
  first occurrence only.
\<close>

fun digits :: "nat \<Rightarrow> string" where
  "digits n =
     (if n < 10 then [''0123456789'' ! n]
      else digits (n div 10) @ [''0123456789'' ! (n mod 10)])"

definition number_toString :: "int \<Rightarrow> string" where
  "number_toString i = (if i < 0 then ''-'' @ digits (nat (- i)) else digits (nat i))"

fun String_replace :: "string \<Rightarrow> string \<Rightarrow> string \<Rightarrow> string" where
  "String_replace pat rep [] = (if pat = [] then rep else [])"
| "String_replace pat rep (c # cs) =
     (if prefix pat (c # cs) then rep @ drop (length pat) (c # cs)
      else c # String_replace pat rep cs)"


subsection \<open>The upload middleware (\<open>routes.ts\<close>, \<open>upload\<close>) and the error middleware (\<open>index.ts\<close>)\<close>

text \<open>
  The file part of a multipart request, as the file filter sees it, and the file object
  that the middleware leaves in \<open>req.file\<close> once the part is stored in memory.
\<close>

record FilePart =
  fieldname :: string
  originalname :: string
  mimetype :: string

record MulterFile = FilePart +
  buffer :: Buffer
  size :: int

definition fileFilter :: "FilePart \<Rightarrow> thrown + bool" where
  "fileFilter file =
     (if mimetype file = ''application/pdf'' then Inr True
      else Inl (Error ''Only PDF files are allowed''))"

definition limits_fileSize :: nat where
  "limits_fileSize = 10 * 1024 * 1024"

text \<open>
  The upload library is not part of the repository. \<open>multer_single\<close> follows its
  documented behaviour for memory storage, with the file filter and the size limit of
  the configuration as arguments: a request without a file part passes with \<open>req.file\<close>
  undefined; a part under another field name is an error; the file filter is asked
  before any byte is stored; a part longer than the limit is an error; otherwise the
  whole content is held in one buffer. An error is passed to \<open>next\<close>, so that the route
  handler does not run. (A part of exactly the limit is taken as accepted; no statement
  below depends on that case.)
\<close>

definition multer_single ::
  "(FilePart \<Rightarrow> thrown + bool) \<Rightarrow> nat \<Rightarrow> string \<Rightarrow> (FilePart \<times> Buffer) option
     \<Rightarrow> thrown + MulterFile option" where
  "multer_single file_filter fileSize name part =
     (case part of
        None \<Rightarrow> Inr None
      | Some (file, content) \<Rightarrow>
          if fieldname file \<noteq> name then Inl (Error ''Unexpected field'')
          else (case file_filter file of
                  Inl error \<Rightarrow> Inl error
                | Inr accept \<Rightarrow>
                    if \<not> accept then Inr None
                    else if fileSize < length content then Inl (Error ''File too large'')
                    else Inr (Some \<lparr>fieldname = fieldname file,
                                    originalname = originalname file,
                                    mimetype = mimetype file,
                                    buffer = content,
                                    size = int (length content)\<rparr>)))"

text \<open>
  The configured middleware of \<open>routes.ts\<close>:
  \<open>multer({storage: multer.memoryStorage(), limits: {fileSize: ...}, fileFilter: ...})\<close>.
\<close>

definition upload_single ::
  "string \<Rightarrow> (FilePart \<times> Buffer) option \<Rightarrow> thrown + MulterFile option" where
  "upload_single name part = multer_single fileFilter limits_fileSize name part"

text \<open>
  The error-handling middleware of \<open>index.ts\<close>: \<open>err.status || 500\<close> and
  \<open>err.message || 'Internal Server Error'\<close>. The errors of this model carry no
  \<open>status\<close>.
\<close>

definition error_middleware :: "thrown \<Rightarrow> ('d, 'i) Response" where
  "error_middleware err =
     json_response 500
       (ErrorMessageJson
          (case err of
             Error message \<Rightarrow> if message = [] then ''Internal Server Error'' else message
           | NonError \<Rightarrow> ''Internal Server Error''))"


subsection \<open>\<open>routes.ts\<close>: \<open>POST /api/extract\<close>\<close>

text \<open>The loop \<open>for (const table of tables) await storage.createExtractedTable(...)\<close>.\<close>

fun save_each_table ::
  "('d, 'm TableInfo_scheme) Env \<Rightarrow> ('d, 'm TableInfo_scheme) Database \<Rightarrow> int
     \<Rightarrow> ('d, 'm TableInfo_scheme) ExtractedTableData list
     \<Rightarrow> ('d, 'm TableInfo_scheme) Database \<times> (thrown + unit)" where
  "save_each_table E db savedDocument_id [] = (db, Inr ())"
| "save_each_table E db savedDocument_id (table # rest) =
     (case createExtractedTable E db
             \<lparr>documentId = savedDocument_id,
              tableIndex = ExtractedTableData.tableIndex table,
              pageNumber = TableInfo.pageNumber (info table),
              tableData = data table,
              tableInfo = info table\<rparr> of
        (db1, Inl error) \<Rightarrow> (db1, Inl error)
      | (db1, Inr _) \<Rightarrow> save_each_table E db1 savedDocument_id rest)"

text \<open>The \<open>catch\<close> clause of the handler.\<close>

definition extract_catch :: "thrown \<Rightarrow> ('d, 'i) Response" where
  "extract_catch error = json_response 500 (ErrorJson (error_message error))"

text \<open>
  The handler takes \<open>req.file\<close>, the text of \<open>new Date().toISOString()\<close> and the
  timestamp the database gives a new document. It returns the new database state, the
  response, and the buffers on which \<open>extractTablesFromPdf\<close> was called. The
  result of the extraction, \<open>tables\<close> in the source, is named \<open>extracted\<close> here.
\<close>

definition post_api_extract ::
  "('d, 'm TableInfo_scheme) Env \<Rightarrow> string \<Rightarrow> string \<Rightarrow> ('d, 'm TableInfo_scheme) Database
     \<Rightarrow> MulterFile option
     \<Rightarrow> ('d, 'm TableInfo_scheme) Database \<times> ('d, 'm TableInfo_scheme) Response \<times> Buffer list" where
  "post_api_extract E isoNow dbNow db req_file =
     (case req_file of
        None \<Rightarrow> (db, json_response 400 (ErrorJson ''No PDF file uploaded''), [])
      | Some file \<Rightarrow>
          (let pdfBuffer = buffer file in
           case extractTablesFromPdf E pdfBuffer of
             Inl error \<Rightarrow> (db, extract_catch error, [pdfBuffer])
           | Inr extracted \<Rightarrow>
               (case insertPdfDocumentSchema_parse E
                       \<lparr>DocumentData.filename = originalname file,
                        filesize = size file,
                        uploadDate = isoNow\<rparr> of
                  Inl error \<Rightarrow> (db, extract_catch error, [pdfBuffer])
                | Inr validatedDocumentData \<Rightarrow>
                    (case createPdfDocument E dbNow db validatedDocumentData of
                       (db1, Inl error) \<Rightarrow> (db1, extract_catch error, [pdfBuffer])
                     | (db1, Inr savedDocument) \<Rightarrow>
                         (case save_each_table E db1 (PdfDocument.id savedDocument) extracted of
                            (db2, Inl error) \<Rightarrow> (db2, extract_catch error, [pdfBuffer])
                          | (db2, Inr _) \<Rightarrow>
                              (db2,
                               json_response 200
                                 (ExtractJson
                                    \<lparr>ExtractResult.documentId = PdfDocument.id savedDocument,
                                     filename = InsertPdfDocument.filename savedDocument,
                                     filesize = InsertPdfDocument.filesize savedDocument,
                                     uploadDate = PdfDocument.uploadDate savedDocument,
                                     tables = extracted\<rparr>),
                               [pdfBuffer]))))))"

text \<open>The route: the upload middleware, then the handler or the error middleware.\<close>

definition post_api_extract_route ::
  "('d, 'm TableInfo_scheme) Env \<Rightarrow> string \<Rightarrow> string \<Rightarrow> ('d, 'm TableInfo_scheme) Database
     \<Rightarrow> (FilePart \<times> Buffer) option
     \<Rightarrow> ('d, 'm TableInfo_scheme) Database \<times> ('d, 'm TableInfo_scheme) Response \<times> Buffer list" where
  "post_api_extract_route E isoNow dbNow db request =
     (case upload_single ''pdf'' request of
        Inl err \<Rightarrow> (db, error_middleware err, [])
      | Inr req_file \<Rightarrow> post_api_extract E isoNow dbNow db req_file)"


subsection \<open>\<open>routes.ts\<close>: the two Excel downloads\<close>

text \<open>
  The handlers take the value of \<open>parseInt(req.params.id)\<close>: \<open>None\<close> for \<open>NaN\<close>,
  otherwise the integer. They return the database state with the response.
\<close>

definition xlsx_content_type :: string where
  "xlsx_content_type = ''application/vnd.openxmlformats-officedocument.spreadsheetml.sheet''"

definition excel_catch :: "(string \<rightharpoonup> string) \<Rightarrow> ('d, 'i) Response" where
  "excel_catch hs =
     \<lparr>status = 500, headers = hs, body = ErrorJson ''Failed to generate Excel file''\<rparr>"

text \<open>The two \<open>setHeader\<close> calls and \<open>res.status(200).send(excelBuffer)\<close>.\<close>

definition send_excel :: "string \<Rightarrow> Buffer \<Rightarrow> ('d, 'i) Response" where
  "send_excel disposition excelBuffer =
     (case setHeader ''Content-Type'' xlsx_content_type Map.empty of
        Inl error \<Rightarrow> excel_catch Map.empty
      | Inr h1 \<Rightarrow>
          (case setHeader ''Content-Disposition'' disposition h1 of
             Inl error \<Rightarrow> excel_catch h1
           | Inr h2 \<Rightarrow> \<lparr>status = 200, headers = h2, body = Sent excelBuffer\<rparr>))"

definition get_api_tables_id_excel ::
  "('d, 'i) Env \<Rightarrow> ('d, 'i) Database \<Rightarrow> int option \<Rightarrow> ('d, 'i) Database \<times> ('d, 'i) Response" where
  "get_api_tables_id_excel E db tableId =
     (case tableId of
        None \<Rightarrow> (db, json_response 400 (ErrorJson ''Invalid table ID''))
      | Some tid \<Rightarrow>
          (case getExtractedTable db tid of
             None \<Rightarrow> (db, json_response 404 (ErrorJson ''Table not found''))
           | Some table \<Rightarrow>
               (case generateExcelFile E (tableData table) of
                  Inl error \<Rightarrow> (db, excel_catch Map.empty)
                | Inr excelBuffer \<Rightarrow>
                    (db, send_excel
                           (''attachment; filename=table-'' @ number_toString tid @ ''.xlsx'')
                           excelBuffer))))"

definition get_api_documents_id_excel ::
  "('d, 'i) Env \<Rightarrow> ('d, 'i) Database \<Rightarrow> int option \<Rightarrow> ('d, 'i) Database \<times> ('d, 'i) Response" where
  "get_api_documents_id_excel E db document_id =
     (case document_id of
        None \<Rightarrow> (db, json_response 400 (ErrorJson ''Invalid document ID''))
      | Some did \<Rightarrow>
          (case getPdfDocument db did of
             None \<Rightarrow> (db, json_response 404 (ErrorJson ''Document not found''))
           | Some document \<Rightarrow>
               (let tables = getExtractedTablesByDocumentId db did in
                if length tables = 0
                then (db, json_response 404 (ErrorJson ''No tables found in document''))
                else (case generateConsolidatedExcel E (map data tables) of
                        Inl error \<Rightarrow> (db, excel_catch Map.empty)
                      | Inr excelBuffer \<Rightarrow>
                          (db, send_excel
                                 (''attachment; filename=''
                                    @ String_replace ''.pdf'' [] (InsertPdfDocument.filename document)
                                    @ ''-tables.xlsx'')
                                 excelBuffer)))))"


section \<open>A concrete instance for evaluating the model\<close>

text \<open>
  One choice of the collaborators, used where a statement is evaluated on concrete
  input: table data is a list of rows of cell strings and table info is the plain
  \<open>TableInfo\<close> record. An empty buffer is unreadable, a one-byte buffer holds no table,
  any other buffer holds the two tables of \<open>example_tables\<close>. The validation wants a
  non-empty file name; the database accepts every document and rejects a table row whose
  page number is below 1; a workbook cannot be generated from a table without rows.
  The example database holds three documents: the first with three tables stored out of
  index order, the second without tables, the third with one table that has no rows.
\<close>

definition example_tables :: "(string list list, TableInfo) ExtractedTableData list" where
  "example_tables =
     [\<lparr>ExtractedTableData.tableIndex = 0,
       data = [[''Name'', ''Age''], [''Alice'', ''30'']],
       info = \<lparr>TableInfo.pageNumber = 1\<rparr>\<rparr>,
      \<lparr>ExtractedTableData.tableIndex = 1,
       data = [[''City''], [''NYC'']],
       info = \<lparr>TableInfo.pageNumber = 0\<rparr>\<rparr>]"

definition example_env :: "(string list list, TableInfo) Env" where
  "example_env =
     \<lparr>extractTablesFromPdf =
        (\<lambda>pdfBuffer. if pdfBuffer = [] then Inl (Error ''Invalid PDF structure'')
                     else if length pdfBuffer = 1 then Inr []
                     else Inr example_tables),
      generateExcelFile =
        (\<lambda>d. if d = [] then Inl (Error ''Table has no rows'') else Inr [0x50, 0x4B]),
      generateConsolidatedExcel =
        (\<lambda>ds. if list_ex (\<lambda>d. d = []) ds then Inl (Error ''Table has no rows'')
               else Inr [0x50, 0x4B, 0x03]),
      insertPdfDocumentSchema_parse =
        (\<lambda>d. if DocumentData.filename d = [] then Inl (Error ''Required'')
              else Inr \<lparr>filename = DocumentData.filename d,
                        filesize = DocumentData.filesize d,
                        userId = None\<rparr>),
      pdfDocuments_rejects = (\<lambda>db d. None),
      extractedTables_rejects =
        (\<lambda>db t. if pageNumber t < 1 then Some (Error ''violates check constraint'') else None)\<rparr>"

definition example_insert :: "int \<Rightarrow> int \<Rightarrow> string list list \<Rightarrow> (string list list, TableInfo) InsertExtractedTable" where
  "example_insert doc idx d =
     \<lparr>documentId = doc, tableIndex = idx, pageNumber = 1, tableData = d,
      tableInfo = \<lparr>TableInfo.pageNumber = 1\<rparr>\<rparr>"

definition example_row :: "int \<Rightarrow> int \<Rightarrow> int \<Rightarrow> string list list \<Rightarrow> (string list list, TableInfo) ExtractedTable" where
  "example_row ident doc idx d =
     \<lparr>documentId = doc, tableIndex = idx, pageNumber = 1, tableData = d,
      tableInfo = \<lparr>TableInfo.pageNumber = 1\<rparr>, ExtractedTable.id = ident\<rparr>"

definition example_document :: "int \<Rightarrow> string \<Rightarrow> PdfDocument" where
  "example_document ident name =
     \<lparr>filename = name, filesize = 2, userId = None,
      PdfDocument.id = ident, uploadDate = ''2024-01-01 00:00:00''\<rparr>"

definition example_file :: "Buffer \<Rightarrow> MulterFile" where
  "example_file content =
     \<lparr>fieldname = ''pdf'', originalname = ''report.pdf'', mimetype = ''application/pdf'',
      buffer = content, size = int (length content)\<rparr>"

definition example_database :: "(string list list, TableInfo) Database" where
  "example_database =
     \<lparr>pdfDocuments =
        [example_document 1 ''report.pdf'', example_document 2 ''empty.pdf'',
         example_document 3 ''blank.pdf''],
      pdfDocuments_id_seq = 4,
      extractedTables =
        [example_row 1 1 2 [[''c'']], example_row 2 1 0 [[''a'']], example_row 3 1 1 [[''b'']],
         example_row 4 3 0 []],
      extractedTables_id_seq = 5\<rparr>"


section \<open>Properties of the storage layer\<close>

lemma createExtractedTable_Inr:
  assumes "createExtractedTable E db t = (db1, Inr stored)"
  shows "extractedTables db1 = extractedTables db @ [stored]"
    and "pdfDocuments db1 = pdfDocuments db"
    and "extractedTables_id_seq db1 = extractedTables_id_seq db + 1"
    and "pdfDocuments_id_seq db1 = pdfDocuments_id_seq db"
    and "ExtractedTable.id stored = extractedTables_id_seq db"
    and "documentId stored = documentId t"
    and "tableIndex stored = tableIndex t"
    and "pageNumber stored = pageNumber t"
    and "tableData stored = tableData t"
    and "tableInfo stored = tableInfo t"
  using assms by (auto simp: createExtractedTable_def Let_def split: option.splits)

lemma createExtractedTable_Inl:
  "createExtractedTable E db t = (db1, Inl e) \<Longrightarrow> db1 = db"
  by (auto simp: createExtractedTable_def Let_def split: option.splits)

lemma createPdfDocument_Inl:
  "createPdfDocument E now db d = (db1, Inl e) \<Longrightarrow> db1 = db"
  by (auto simp: createPdfDocument_def Let_def split: option.splits)

lemma createPdfDocument_Inr:
  assumes "createPdfDocument E now db d = (db1, Inr saved)"
  shows "pdfDocuments db1 = pdfDocuments db @ [saved]"
    and "extractedTables db1 = extractedTables db"
    and "pdfDocuments_id_seq db1 = pdfDocuments_id_seq db + 1"
    and "extractedTables_id_seq db1 = extractedTables_id_seq db"
    and "PdfDocument.id saved = pdfDocuments_id_seq db"
    and "InsertPdfDocument.filename saved = InsertPdfDocument.filename d"
    and "InsertPdfDocument.filesize saved = InsertPdfDocument.filesize d"
    and "PdfDocument.uploadDate saved = now"
  using assms by (auto simp: createPdfDocument_def Let_def split: option.splits)

text \<open>A write only appends rows to \<open>extractedTables\<close>, with identifiers from the sequence.\<close>

lemma storage_write_step_tables:
  "\<exists>new. extractedTables (storage_write_step E db w) = extractedTables db @ new \<and>
         list_all (\<lambda>row. extractedTables_id_seq db \<le> ExtractedTable.id row) new \<and>
         extractedTables_id_seq db \<le> extractedTables_id_seq (storage_write_step E db w)"
proof (cases w)
  case (CreatePdfDocument now d)
  obtain db1 r where c: "createPdfDocument E now db d = (db1, r)" by (cases "createPdfDocument E now db d")
  have "extractedTables db1 = extractedTables db \<and> extractedTables_id_seq db1 = extractedTables_id_seq db"
    using c createPdfDocument_Inl[of E now db d db1] createPdfDocument_Inr(2,4)[of E now db d db1]
    by (cases r) auto
  then show ?thesis using CreatePdfDocument c by simp
next
  case (CreateExtractedTable t)
  obtain db1 r where c: "createExtractedTable E db t = (db1, r)" by (cases "createExtractedTable E db t")
  show ?thesis
  proof (cases r)
    case (Inl e)
    then have "db1 = db" using c createExtractedTable_Inl by blast
    then show ?thesis using CreateExtractedTable c by simp
  next
    case (Inr stored)
    then have "extractedTables db1 = extractedTables db @ [stored]"
       "extractedTables_id_seq db1 = extractedTables_id_seq db + 1"
       "ExtractedTable.id stored = extractedTables_id_seq db"
      using c createExtractedTable_Inr(1,3,5)[of E db t db1 stored] by auto
    then show ?thesis using CreateExtractedTable c by simp
  qed
qed

lemma storage_writes_tables:
  "\<exists>new. extractedTables (storage_writes E db ws) = extractedTables db @ new \<and>
         list_all (\<lambda>row. extractedTables_id_seq db \<le> ExtractedTable.id row) new \<and>
         extractedTables_id_seq db \<le> extractedTables_id_seq (storage_writes E db ws)"
proof (induction ws arbitrary: db)
  case Nil
  then show ?case by (simp add: storage_writes_def)
next
  case (Cons w ws)
  obtain n1 where n1: "extractedTables (storage_write_step E db w) = extractedTables db @ n1"
     "list_all (\<lambda>row. extractedTables_id_seq db \<le> ExtractedTable.id row) n1"
     "extractedTables_id_seq db \<le> extractedTables_id_seq (storage_write_step E db w)"
    using storage_write_step_tables[of E db w] by blast
  obtain n2 where n2: "extractedTables (storage_writes E (storage_write_step E db w) ws) = extractedTables (storage_write_step E db w) @ n2"
     "list_all (\<lambda>row. extractedTables_id_seq (storage_write_step E db w) \<le> ExtractedTable.id row) n2"
     "extractedTables_id_seq (storage_write_step E db w) \<le> extractedTables_id_seq (storage_writes E (storage_write_step E db w) ws)"
    using Cons.IH[of "storage_write_step E db w"] by blast
  have "list_all (\<lambda>row. extractedTables_id_seq db \<le> ExtractedTable.id row) n2"
    using n2(2) n1(3) by (auto simp: list_all_iff)
  then show ?case using n1 n2 by (auto simp: storage_writes_def)
qed

lemma destructure_first_filter_unique:
  assumes "list_all (\<lambda>r. \<not> P r) old" and "P x"
  shows "destructure_first (filter P (old @ x # new)) = Some x"
proof -
  have "filter P old = []" using assms(1) by (induction old) auto
  then show ?thesis using assms(2) by (simp add: destructure_first_def)
qed

text \<open>
  Claim C1. A table stored with \<open>createExtractedTable\<close> is retrievable afterwards, also
  after any further writes to the storage: \<open>getExtractedTable\<close> with the identifier of
  the stored row returns a row with the stored \<open>tableIndex\<close>, \<open>pageNumber\<close>,
  \<open>tableData\<close> and \<open>tableInfo\<close>, and \<open>getExtractedTablesByDocumentId\<close> with the
  document identifier returns an entry with the stored \<open>tableIndex\<close>, whose \<open>data\<close> and
  \<open>info\<close> are the stored \<open>tableData\<close> and \<open>tableInfo\<close>. The database is one whose
  identifiers came from its sequences.
\<close>

theorem stored_table_retrievable:
  assumes "serial_ok db"
    and "createExtractedTable E db table = (db1, Inr stored)"
  shows "(\<exists>row. getExtractedTable (storage_writes E db1 ws) (ExtractedTable.id stored) = Some row \<and>
            tableIndex row = tableIndex table \<and> pageNumber row = pageNumber table \<and>
            tableData row = tableData table \<and> tableInfo row = tableInfo table) \<and>
         (\<exists>entry \<in> set (getExtractedTablesByDocumentId (storage_writes E db1 ws) (documentId table)).
            ExtractedTableData.tableIndex entry = tableIndex table \<and>
            data entry = tableData table \<and> info entry = tableInfo table)"
proof -
  note c = createExtractedTable_Inr[OF assms(2)]
  obtain new where new: "extractedTables (storage_writes E db1 ws) = extractedTables db1 @ new"
    "list_all (\<lambda>row. extractedTables_id_seq db1 \<le> ExtractedTable.id row) new"
    using storage_writes_tables[of E db1 ws] by blast
  have rows: "extractedTables (storage_writes E db1 ws) = extractedTables db @ stored # new"
    using new(1) c(1) by simp
  have old: "list_all (\<lambda>r. \<not> ExtractedTable.id r = ExtractedTable.id stored) (extractedTables db)"
    using assms(1) c(5) by (auto simp: serial_ok_def list_all_iff)
  have g: "getExtractedTable (storage_writes E db1 ws) (ExtractedTable.id stored) = Some stored"
    unfolding getExtractedTable_def rows
    by (rule destructure_first_filter_unique[OF old]) simp
  have "stored \<in> set (filter (\<lambda>row. documentId row = documentId table) (extractedTables (storage_writes E db1 ws)))"
    using rows c(6) by simp
  then have "to_ExtractedTableData stored \<in> set (getExtractedTablesByDocumentId (storage_writes E db1 ws) (documentId table))"
    by (simp add: getExtractedTablesByDocumentId_def)
  moreover have "ExtractedTableData.tableIndex (to_ExtractedTableData stored) = tableIndex table"
    "data (to_ExtractedTableData stored) = tableData table"
    "info (to_ExtractedTableData stored) = tableInfo table"
    using c(7,9,10) by (simp_all add: to_ExtractedTableData_def)
  ultimately have "\<exists>entry \<in> set (getExtractedTablesByDocumentId (storage_writes E db1 ws) (documentId table)).
            ExtractedTableData.tableIndex entry = tableIndex table \<and>
            data entry = tableData table \<and> info entry = tableInfo table"
    by blast
  then show ?thesis using g c(7-10) by simp
qed

theorem stored_table_retrievable_witness:
  "serial_ok example_database \<and>
   createExtractedTable example_env example_database (example_insert 2 0 [[''x'']]) =
     (example_database
        \<lparr>extractedTables := extractedTables example_database @ [example_row 5 2 0 [[''x'']]],
         extractedTables_id_seq := 6\<rparr>,
      Inr (example_row 5 2 0 [[''x'']])) \<and>
   (\<exists>row. getExtractedTable
            (storage_writes example_env
               (example_database
                  \<lparr>extractedTables := extractedTables example_database @ [example_row 5 2 0 [[''x'']]],
                   extractedTables_id_seq := 6\<rparr>)
               [CreateExtractedTable (example_insert 2 1 [[''y'']]),
                CreatePdfDocument ''2024-01-02 00:00:00'' \<lparr>filename = ''b.pdf'', filesize = 1, userId = None\<rparr>])
            (ExtractedTable.id (example_row 5 2 0 [[''x'']])) = Some row \<and>
          tableIndex row = tableIndex (example_insert 2 0 [[''x'']]) \<and>
          pageNumber row = pageNumber (example_insert 2 0 [[''x'']]) \<and>
          tableData row = tableData (example_insert 2 0 [[''x'']]) \<and>
          tableInfo row = tableInfo (example_insert 2 0 [[''x'']])) \<and>
   (\<exists>entry \<in> set (getExtractedTablesByDocumentId
            (storage_writes example_env
               (example_database
                  \<lparr>extractedTables := extractedTables example_database @ [example_row 5 2 0 [[''x'']]],
                   extractedTables_id_seq := 6\<rparr>)
               [CreateExtractedTable (example_insert 2 1 [[''y'']]),
                CreatePdfDocument ''2024-01-02 00:00:00'' \<lparr>filename = ''b.pdf'', filesize = 1, userId = None\<rparr>])
            (documentId (example_insert 2 0 [[''x'']]))).
          ExtractedTableData.tableIndex entry = tableIndex (example_insert 2 0 [[''x'']]) \<and>
          data entry = tableData (example_insert 2 0 [[''x'']]) \<and>
          info entry = tableInfo (example_insert 2 0 [[''x'']]))"
proof -
  have a: "serial_ok example_database"
    by (simp add: serial_ok_def example_database_def example_row_def example_document_def)
  have b: "createExtractedTable example_env example_database (example_insert 2 0 [[''x'']]) =
     (example_database
        \<lparr>extractedTables := extractedTables example_database @ [example_row 5 2 0 [[''x'']]],
         extractedTables_id_seq := 6\<rparr>,
      Inr (example_row 5 2 0 [[''x'']]))"
    by (simp add: createExtractedTable_def Let_def example_env_def example_database_def example_row_def
        example_insert_def)
  show ?thesis
    using a b stored_table_retrievable [OF a b] by blast
qed

text \<open>
  Claim C9. \<open>getExtractedTablesByDocumentId\<close> returns the entries in ascending
  \<open>tableIndex\<close> order; the entries are exactly the projections of the stored rows of the
  document, each as often as it is stored; and two databases holding the same rows in
  different insertion orders give the same sequence of \<open>tableIndex\<close> values.
\<close>

theorem tables_by_document_sorted:
  "sorted (map ExtractedTableData.tableIndex (getExtractedTablesByDocumentId db ident)) \<and>
   mset (getExtractedTablesByDocumentId db ident) =
     image_mset to_ExtractedTableData
       (filter_mset (\<lambda>row. documentId row = ident) (mset (extractedTables db))) \<and>
   (mset (extractedTables db') = mset (extractedTables db) \<longrightarrow>
      map ExtractedTableData.tableIndex (getExtractedTablesByDocumentId db' ident) =
      map ExtractedTableData.tableIndex (getExtractedTablesByDocumentId db ident))"
proof -
  have key: "map ExtractedTableData.tableIndex (getExtractedTablesByDocumentId d ident) =
        sort (map tableIndex (filter (\<lambda>row. documentId row = ident) (extractedTables d)))" for d :: "('a, 'b) Database"
  proof -
    have "map ExtractedTableData.tableIndex (getExtractedTablesByDocumentId d ident) =
          map tableIndex (sort_key tableIndex (filter (\<lambda>row. documentId row = ident) (extractedTables d)))"
      by (simp add: getExtractedTablesByDocumentId_def to_ExtractedTableData_def comp_def)
    also have "\<dots> = sort (map tableIndex (filter (\<lambda>row. documentId row = ident) (extractedTables d)))"
      by (rule properties_for_sort[symmetric]) simp_all
    finally show ?thesis .
  qed
  have s: "sorted (map ExtractedTableData.tableIndex (getExtractedTablesByDocumentId db ident))"
    unfolding key by simp
  have m: "mset (getExtractedTablesByDocumentId db ident) =
     image_mset to_ExtractedTableData
       (filter_mset (\<lambda>row. documentId row = ident) (mset (extractedTables db)))"
    by (simp add: getExtractedTablesByDocumentId_def)
  have p: "map ExtractedTableData.tableIndex (getExtractedTablesByDocumentId db' ident) =
      map ExtractedTableData.tableIndex (getExtractedTablesByDocumentId db ident)"
    if "mset (extractedTables db') = mset (extractedTables db)"
  proof -
    have "mset (map tableIndex (filter (\<lambda>row. documentId row = ident) (extractedTables db'))) =
          mset (map tableIndex (filter (\<lambda>row. documentId row = ident) (extractedTables db)))"
      using that by simp
    then show ?thesis unfolding key
      by (metis properties_for_sort sorted_sort mset_sort)
  qed
  show ?thesis using s m p by blast
qed

theorem tables_by_document_sorted_witness:
  "mset (extractedTables (example_database
           \<lparr>extractedTables := rev (extractedTables example_database)\<rparr>)) =
   mset (extractedTables example_database) \<and>
   map ExtractedTableData.tableIndex (getExtractedTablesByDocumentId example_database 1) = [0, 1, 2] \<and>
   map ExtractedTableData.tableIndex
     (getExtractedTablesByDocumentId
        (example_database\<lparr>extractedTables := rev (extractedTables example_database)\<rparr>) 1) = [0, 1, 2]"
proof -
  have a: "mset (extractedTables (example_database
           \<lparr>extractedTables := rev (extractedTables example_database)\<rparr>)) =
       mset (extractedTables example_database)"
    by simp
  have b: "map ExtractedTableData.tableIndex (getExtractedTablesByDocumentId example_database 1) = [0, 1, 2]"
    by (simp add: getExtractedTablesByDocumentId_def to_ExtractedTableData_def
        example_database_def example_row_def)
  show ?thesis
    using a b tables_by_document_sorted [of example_database 1
        "example_database\<lparr>extractedTables := rev (extractedTables example_database)\<rparr>"]
    by simp
qed

text \<open>
  The identifiers are handed out by the sequences: the empty database satisfies
  \<open>serial_ok\<close>, and every write of the storage interface keeps it.
\<close>

lemma serial_ok_empty_database: "serial_ok empty_database"
  by (simp add: serial_ok_def empty_database_def)

lemma serial_ok_createPdfDocument:
  "serial_ok db \<Longrightarrow> serial_ok (fst (createPdfDocument E now db document))"
  by (auto simp: serial_ok_def createPdfDocument_def Let_def list_all_iff split: option.splits)

lemma serial_ok_createExtractedTable:
  "serial_ok db \<Longrightarrow> serial_ok (fst (createExtractedTable E db table))"
  by (auto simp: serial_ok_def createExtractedTable_def Let_def list_all_iff split: option.splits)

lemma serial_ok_storage_writes:
  "serial_ok db \<Longrightarrow> serial_ok (storage_writes E db ws)"
proof (induction ws arbitrary: db)
  case Nil
  then show ?case by (simp add: storage_writes_def)
next
  case (Cons w ws)
  have "serial_ok (storage_write_step E db w)"
    using Cons.prems serial_ok_createPdfDocument serial_ok_createExtractedTable
    by (cases w) auto
  then have "serial_ok (storage_writes E (storage_write_step E db w) ws)"
    by (rule Cons.IH)
  then show ?case by (simp add: storage_writes_def)
qed


section \<open>Properties of the extract route\<close>

lemma save_each_table_Inr:
  "save_each_table E db d ts = (db', Inr u) \<Longrightarrow>
     pdfDocuments db' = pdfDocuments db \<and>
     (\<exists>rows. extractedTables db' = extractedTables db @ rows \<and>
             map to_ExtractedTableData rows = ts \<and>
             list_all (\<lambda>row. documentId row = d) rows)"
proof (induction ts arbitrary: db)
  case Nil
  then show ?case by simp
next
  case (Cons t ts)
  let ?ins = "\<lparr>documentId = d, tableIndex = ExtractedTableData.tableIndex t,
                pageNumber = TableInfo.pageNumber (info t), tableData = data t,
                tableInfo = info t\<rparr>"
  obtain db1 r where c: "createExtractedTable E db ?ins = (db1, r)"
    by (cases "createExtractedTable E db ?ins")
  from Cons.prems c obtain stored where r: "r = Inr stored"
    by (cases r) auto
  from Cons.prems c r have rest: "save_each_table E db1 d ts = (db', Inr u)"
    by simp
  note s = createExtractedTable_Inr[OF c[unfolded r]]
  from Cons.IH[OF rest] obtain rows where rows:
    "pdfDocuments db' = pdfDocuments db1"
    "extractedTables db' = extractedTables db1 @ rows"
    "map to_ExtractedTableData rows = ts"
    "list_all (\<lambda>row. documentId row = d) rows"
    by blast
  have p: "to_ExtractedTableData stored = t"
    using s(7,9,10) by (simp add: to_ExtractedTableData_def)
  have "extractedTables db' = extractedTables db @ (stored # rows)"
    using rows(2) s(1) by simp
  moreover have "map to_ExtractedTableData (stored # rows) = t # ts"
    using p rows(3) by simp
  moreover have "list_all (\<lambda>row. documentId row = d) (stored # rows)"
    using rows(4) s(6) by simp
  ultimately show ?case using rows(1) s(2) by metis
qed

lemma save_each_table_append:
  "save_each_table E db d (pre @ ts) =
     (case save_each_table E db d pre of
        (db1, Inl error) \<Rightarrow> (db1, Inl error)
      | (db1, Inr u) \<Rightarrow> save_each_table E db1 d ts)"
  by (induction pre arbitrary: db) (auto split: prod.splits sum.splits)

text \<open>The handler keeps the identifiers within the sequences.\<close>

lemma serial_ok_save_each_table:
  "serial_ok db \<Longrightarrow> serial_ok (fst (save_each_table E db d ts))"
proof (induction ts arbitrary: db)
  case Nil
  then show ?case by simp
next
  case (Cons t ts)
  let ?ins = "\<lparr>documentId = d, tableIndex = ExtractedTableData.tableIndex t,
                pageNumber = TableInfo.pageNumber (info t), tableData = data t,
                tableInfo = info t\<rparr>"
  obtain db1 r where c: "createExtractedTable E db ?ins = (db1, r)"
    by (cases "createExtractedTable E db ?ins")
  have ok1: "serial_ok db1"
    using serial_ok_createExtractedTable[OF Cons.prems, of E ?ins] c by simp
  show ?case
  proof (cases r)
    case (Inl error)
    then show ?thesis using c ok1 by simp
  next
    case (Inr stored)
    then show ?thesis using c Cons.IH[OF ok1] by simp
  qed
qed

lemma serial_ok_post_api_extract:
  assumes "serial_ok db"
  shows "serial_ok (fst (post_api_extract E isoNow dbNow db req_file))"
proof (cases req_file)
  case None
  then show ?thesis using assms by (simp add: post_api_extract_def)
next
  case (Some uploaded)
  show ?thesis
  proof (cases "extractTablesFromPdf E (buffer uploaded)")
    case (Inl error)
    then show ?thesis using Some assms by (simp add: post_api_extract_def Let_def)
  next
    case (Inr extracted)
    note ex = this
    show ?thesis
    proof (cases "insertPdfDocumentSchema_parse E
           \<lparr>DocumentData.filename = originalname uploaded, filesize = size uploaded,
            uploadDate = isoNow\<rparr>")
      case (Inl error)
      then show ?thesis using Some ex assms by (simp add: post_api_extract_def Let_def)
    next
      case (Inr validated)
      obtain db1 r where c: "createPdfDocument E dbNow db validated = (db1, r)"
        by (cases "createPdfDocument E dbNow db validated")
      have ok1: "serial_ok db1"
        using serial_ok_createPdfDocument[OF assms, of E dbNow validated] c by simp
      show ?thesis
      proof (cases r)
        case (Inl error)
        then show ?thesis using Some ex Inr c ok1 by (simp add: post_api_extract_def Let_def)
      next
        case (Inr savedDocument)
        have "serial_ok (fst (save_each_table E db1 (PdfDocument.id savedDocument) extracted))"
          using ok1 by (rule serial_ok_save_each_table)
        then show ?thesis
          using Some ex \<open>insertPdfDocumentSchema_parse E _ = Inr validated\<close> c Inr
          by (auto simp: post_api_extract_def Let_def split: prod.splits sum.splits)
      qed
    qed
  qed
qed

text \<open>When no insert throws, every extracted table is stored and the response lists them.\<close>

lemma post_api_extract_all_stored:
  assumes "extractTablesFromPdf E (buffer file) = Inr extracted"
    and "insertPdfDocumentSchema_parse E
           \<lparr>DocumentData.filename = originalname file, filesize = size file,
            uploadDate = isoNow\<rparr> = Inr validated"
    and "createPdfDocument E dbNow db validated = (db1, Inr savedDocument)"
    and "save_each_table E db1 (PdfDocument.id savedDocument) extracted = (db2, Inr ())"
  shows "post_api_extract E isoNow dbNow db (Some file) =
           (db2,
            \<lparr>status = 200, headers = Map.empty,
             body = ExtractJson
                      \<lparr>ExtractResult.documentId = PdfDocument.id savedDocument,
                       filename = InsertPdfDocument.filename savedDocument,
                       filesize = InsertPdfDocument.filesize savedDocument,
                       uploadDate = PdfDocument.uploadDate savedDocument,
                       tables = extracted\<rparr>\<rparr>,
            [buffer file])"
  using assms by (simp add: post_api_extract_def json_response_def Let_def)

text \<open>
  Claim C2, as amended. The tables are stored one after the other, and the first insert
  that throws ends the request: the response is status 500 with only the message of the
  thrown value, the document and the tables stored before the failing one stay stored,
  and the failing table and those after it are not stored.
\<close>

theorem persistence_stops_at_first_failure:
  assumes "extractTablesFromPdf E (buffer file) = Inr (stored_before @ failing # not_attempted)"
    and "insertPdfDocumentSchema_parse E
           \<lparr>DocumentData.filename = originalname file, filesize = size file,
            uploadDate = isoNow\<rparr> = Inr validated"
    and "createPdfDocument E dbNow db validated = (db1, Inr savedDocument)"
    and "save_each_table E db1 (PdfDocument.id savedDocument) stored_before = (db2, Inr ())"
    and "extractedTables_rejects E db2
           \<lparr>documentId = PdfDocument.id savedDocument,
            tableIndex = ExtractedTableData.tableIndex failing,
            pageNumber = TableInfo.pageNumber (info failing),
            tableData = data failing,
            tableInfo = info failing\<rparr> = Some error"
  shows "snd (post_api_extract E isoNow dbNow db (Some file)) =
           (\<lparr>status = 500, headers = Map.empty, body = ErrorJson (error_message error)\<rparr>,
            [buffer file]) \<and>
         pdfDocuments (fst (post_api_extract E isoNow dbNow db (Some file))) =
           pdfDocuments db @ [savedDocument] \<and>
         (\<exists>rows. extractedTables (fst (post_api_extract E isoNow dbNow db (Some file))) =
                   extractedTables db @ rows \<and>
                 map to_ExtractedTableData rows = stored_before \<and>
                 list_all (\<lambda>row. documentId row = PdfDocument.id savedDocument) rows)"
proof -
  have f: "save_each_table E db2 (PdfDocument.id savedDocument) (failing # not_attempted) =
             (db2, Inl error)"
    using assms(5) by (simp add: createExtractedTable_def)
  have l: "save_each_table E db1 (PdfDocument.id savedDocument)
             (stored_before @ failing # not_attempted) = (db2, Inl error)"
    using assms(4) f by (simp add: save_each_table_append)
  have r: "post_api_extract E isoNow dbNow db (Some file) =
           (db2,
            \<lparr>status = 500, headers = Map.empty, body = ErrorJson (error_message error)\<rparr>,
            [buffer file])"
    using assms(1-3) l
    by (simp add: post_api_extract_def Let_def extract_catch_def json_response_def)
  note d = createPdfDocument_Inr[OF assms(3)]
  from save_each_table_Inr[OF assms(4)] obtain rows where rows:
    "pdfDocuments db2 = pdfDocuments db1"
    "extractedTables db2 = extractedTables db1 @ rows"
    "map to_ExtractedTableData rows = stored_before"
    "list_all (\<lambda>row. documentId row = PdfDocument.id savedDocument) rows"
    by blast
  show ?thesis unfolding r using rows d(1,2) by auto
qed

theorem persistence_stops_at_first_failure_witness:
  "extractTablesFromPdf example_env (buffer (example_file [0x25, 0x50])) =
     Inr ([example_tables ! 0] @ example_tables ! 1 # []) \<and>
   insertPdfDocumentSchema_parse example_env
     \<lparr>DocumentData.filename = originalname (example_file [0x25, 0x50]),
      filesize = size (example_file [0x25, 0x50]),
      uploadDate = ''2024-01-01T00:00:00.000Z''\<rparr> =
     Inr \<lparr>filename = ''report.pdf'', filesize = 2, userId = None\<rparr> \<and>
   snd (createPdfDocument example_env ''2024-01-01 00:00:00'' example_database
          \<lparr>filename = ''report.pdf'', filesize = 2, userId = None\<rparr>) =
     Inr (example_document 4 ''report.pdf'') \<and>
   snd (post_api_extract example_env ''2024-01-01T00:00:00.000Z'' ''2024-01-01 00:00:00''
          example_database (Some (example_file [0x25, 0x50]))) =
     (\<lparr>status = 500, headers = Map.empty, body = ErrorJson ''violates check constraint''\<rparr>,
      [[0x25, 0x50]]) \<and>
   pdfDocuments (fst (post_api_extract example_env ''2024-01-01T00:00:00.000Z''
          ''2024-01-01 00:00:00'' example_database (Some (example_file [0x25, 0x50])))) =
     pdfDocuments example_database @ [example_document 4 ''report.pdf''] \<and>
   (\<exists>rows. extractedTables (fst (post_api_extract example_env ''2024-01-01T00:00:00.000Z''
              ''2024-01-01 00:00:00'' example_database (Some (example_file [0x25, 0x50])))) =
             extractedTables example_database @ rows \<and>
           map to_ExtractedTableData rows = [example_tables ! 0] \<and>
           list_all (\<lambda>row. documentId row = 4) rows)"
proof -
  let ?db1 = "example_database
        \<lparr>pdfDocuments := pdfDocuments example_database @ [example_document 4 ''report.pdf''],
         pdfDocuments_id_seq := 5\<rparr>"
  let ?db2 = "example_database
        \<lparr>pdfDocuments := pdfDocuments example_database @ [example_document 4 ''report.pdf''],
         pdfDocuments_id_seq := 5,
         extractedTables := extractedTables example_database
            @ [example_row 5 4 0 [[''Name'', ''Age''], [''Alice'', ''30'']]],
         extractedTables_id_seq := 6\<rparr>"
  have a: "extractTablesFromPdf example_env (buffer (example_file [0x25, 0x50])) =
     Inr ([example_tables ! 0] @ example_tables ! 1 # [])"
    by (simp add: example_env_def example_file_def example_tables_def)
  have b: "insertPdfDocumentSchema_parse example_env
     \<lparr>DocumentData.filename = originalname (example_file [0x25, 0x50]),
      filesize = size (example_file [0x25, 0x50]),
      uploadDate = ''2024-01-01T00:00:00.000Z''\<rparr> =
     Inr \<lparr>filename = ''report.pdf'', filesize = 2, userId = None\<rparr>"
    by (simp add: example_env_def example_file_def)
  have c: "createPdfDocument example_env ''2024-01-01 00:00:00'' example_database
     \<lparr>filename = ''report.pdf'', filesize = 2, userId = None\<rparr> =
     (?db1, Inr (example_document 4 ''report.pdf''))"
    by (simp add: createPdfDocument_def Let_def userId_or_null_def example_env_def
        example_database_def example_document_def)
  have d: "save_each_table example_env ?db1 (PdfDocument.id (example_document 4 ''report.pdf''))
             [example_tables ! 0] = (?db2, Inr ())"
    by (simp add: createExtractedTable_def Let_def example_env_def example_tables_def
        example_database_def example_document_def example_row_def)
  have e: "extractedTables_rejects example_env ?db2
           \<lparr>documentId = PdfDocument.id (example_document 4 ''report.pdf''),
            tableIndex = ExtractedTableData.tableIndex (example_tables ! 1),
            pageNumber = TableInfo.pageNumber (info (example_tables ! 1)),
            tableData = data (example_tables ! 1),
            tableInfo = info (example_tables ! 1)\<rparr> = Some (Error ''violates check constraint'')"
    by (simp add: example_env_def example_tables_def)
  have i: "PdfDocument.id (example_document 4 ''report.pdf'') = 4"
    by (simp add: example_document_def)
  show ?thesis
    using a b c persistence_stops_at_first_failure [OF a b c d e]
    by (simp add: error_message_def example_file_def i)
qed

text \<open>
  Claim C2 as stated does not hold. With two extracted tables of which the database
  rejects the second, the caller receives status 500 with the error message alone,
  neither the table that was stored nor a list of failures, while the document and the
  first table are stored.
\<close>

theorem batch_result_counterexample:
  "snd (post_api_extract example_env ''2024-01-01T00:00:00.000Z'' ''2024-01-01 00:00:00''
          empty_database (Some (example_file [0x25, 0x50]))) =
     (\<lparr>status = 500, headers = Map.empty, body = ErrorJson ''violates check constraint''\<rparr>,
      [[0x25, 0x50]]) \<and>
   pdfDocuments (fst (post_api_extract example_env ''2024-01-01T00:00:00.000Z''
          ''2024-01-01 00:00:00'' empty_database (Some (example_file [0x25, 0x50])))) =
     [\<lparr>filename = ''report.pdf'', filesize = 2, userId = None, PdfDocument.id = 1,
       uploadDate = ''2024-01-01 00:00:00''\<rparr>] \<and>
   extractedTables (fst (post_api_extract example_env ''2024-01-01T00:00:00.000Z''
          ''2024-01-01 00:00:00'' empty_database (Some (example_file [0x25, 0x50])))) =
     [\<lparr>documentId = 1, tableIndex = 0, pageNumber = 1,
       tableData = [[''Name'', ''Age''], [''Alice'', ''30'']],
       tableInfo = \<lparr>TableInfo.pageNumber = 1\<rparr>, ExtractedTable.id = 1\<rparr>]"
  by (simp add: post_api_extract_def Let_def createPdfDocument_def createExtractedTable_def
      userId_or_null_def extract_catch_def json_response_def error_message_def
      example_env_def example_file_def example_tables_def empty_database_def)

text \<open>
  Claim C3. When the extraction returns the empty sequence, and validation and the
  insert of the document succeed, the request succeeds: the document row is appended,
  no table row is stored, and the response is status 200 with an empty \<open>tables\<close>
  array.
\<close>

theorem empty_extraction_is_success:
  assumes "extractTablesFromPdf E (buffer file) = Inr []"
    and "insertPdfDocumentSchema_parse E
           \<lparr>DocumentData.filename = originalname file, filesize = size file,
            uploadDate = isoNow\<rparr> = Inr validated"
    and "createPdfDocument E dbNow db validated = (db1, Inr savedDocument)"
  shows "post_api_extract E isoNow dbNow db (Some file) =
           (db1,
            \<lparr>status = 200, headers = Map.empty,
             body = ExtractJson
                      \<lparr>ExtractResult.documentId = PdfDocument.id savedDocument,
                       filename = InsertPdfDocument.filename savedDocument,
                       filesize = InsertPdfDocument.filesize savedDocument,
                       uploadDate = PdfDocument.uploadDate savedDocument,
                       tables = []\<rparr>\<rparr>,
            [buffer file]) \<and>
         pdfDocuments db1 = pdfDocuments db @ [savedDocument] \<and>
         extractedTables db1 = extractedTables db"
proof -
  have "pdfDocuments db1 = pdfDocuments db @ [savedDocument] \<and> extractedTables db1 = extractedTables db"
    using assms(3) by (auto simp: createPdfDocument_def Let_def split: option.splits)
  then show ?thesis
    using assms by (simp add: post_api_extract_def json_response_def Let_def)
qed

theorem empty_extraction_is_success_witness:
  "extractTablesFromPdf example_env (buffer (example_file [0x25])) = Inr [] \<and>
   insertPdfDocumentSchema_parse example_env
     \<lparr>DocumentData.filename = originalname (example_file [0x25]),
      filesize = size (example_file [0x25]),
      uploadDate = ''2024-01-01T00:00:00.000Z''\<rparr> =
     Inr \<lparr>filename = ''report.pdf'', filesize = 1, userId = None\<rparr> \<and>
   createPdfDocument example_env ''2024-01-01 00:00:00'' empty_database
     \<lparr>filename = ''report.pdf'', filesize = 1, userId = None\<rparr> =
     (\<lparr>pdfDocuments =
         [\<lparr>filename = ''report.pdf'', filesize = 1, userId = None, PdfDocument.id = 1,
           uploadDate = ''2024-01-01 00:00:00''\<rparr>],
       pdfDocuments_id_seq = 2, extractedTables = [], extractedTables_id_seq = 1\<rparr>,
      Inr \<lparr>filename = ''report.pdf'', filesize = 1, userId = None, PdfDocument.id = 1,
           uploadDate = ''2024-01-01 00:00:00''\<rparr>) \<and>
   post_api_extract example_env ''2024-01-01T00:00:00.000Z'' ''2024-01-01 00:00:00''
     empty_database (Some (example_file [0x25])) =
     (\<lparr>pdfDocuments =
         [\<lparr>filename = ''report.pdf'', filesize = 1, userId = None, PdfDocument.id = 1,
           uploadDate = ''2024-01-01 00:00:00''\<rparr>],
       pdfDocuments_id_seq = 2, extractedTables = [], extractedTables_id_seq = 1\<rparr>,
      \<lparr>status = 200, headers = Map.empty,
       body = ExtractJson
                \<lparr>ExtractResult.documentId = 1, filename = ''report.pdf'', filesize = 1,
                 uploadDate = ''2024-01-01 00:00:00'', tables = []\<rparr>\<rparr>,
      [[0x25]])"
proof -
  have a: "extractTablesFromPdf example_env (buffer (example_file [0x25])) = Inr []"
    by (simp add: example_env_def example_file_def)
  have b: "insertPdfDocumentSchema_parse example_env
     \<lparr>DocumentData.filename = originalname (example_file [0x25]),
      filesize = size (example_file [0x25]),
      uploadDate = ''2024-01-01T00:00:00.000Z''\<rparr> =
     Inr \<lparr>filename = ''report.pdf'', filesize = 1, userId = None\<rparr>"
    by (simp add: example_env_def example_file_def)
  have c: "createPdfDocument example_env ''2024-01-01 00:00:00'' empty_database
     \<lparr>filename = ''report.pdf'', filesize = 1, userId = None\<rparr> =
     (\<lparr>pdfDocuments =
         [\<lparr>filename = ''report.pdf'', filesize = 1, userId = None, PdfDocument.id = 1,
           uploadDate = ''2024-01-01 00:00:00''\<rparr>],
       pdfDocuments_id_seq = 2, extractedTables = [], extractedTables_id_seq = 1\<rparr>,
      Inr \<lparr>filename = ''report.pdf'', filesize = 1, userId = None, PdfDocument.id = 1,
           uploadDate = ''2024-01-01 00:00:00''\<rparr>)"
    by (simp add: createPdfDocument_def Let_def userId_or_null_def example_env_def
        empty_database_def)
  show ?thesis
    using a b c empty_extraction_is_success [OF a b c]
    by (simp add: example_file_def)
qed

text \<open>
  Claim C4. \<open>extractTablesFromPdf\<close> is called only on the complete content of an
  uploaded file part whose media type is \<open>application/pdf\<close> and whose length is at most
  10 MB; a request whose file is longer or of another media type is answered by the
  error middleware, with no call of the extraction and no change of the database.
\<close>

theorem upload_limits_enforced:
  "(\<forall>pdfBuffer \<in> set (snd (snd (post_api_extract_route E isoNow dbNow db request))).
      \<exists>file. request = Some (file, pdfBuffer) \<and>
             mimetype file = ''application/pdf'' \<and>
             length pdfBuffer \<le> 10 * 1024 * 1024) \<and>
   (request = Some (file, content) \<and>
    (10 * 1024 * 1024 < length content \<or> mimetype file \<noteq> ''application/pdf'') \<longrightarrow>
      post_api_extract_route E isoNow dbNow db request =
        (db,
         \<lparr>status = 500, headers = Map.empty,
          body = ErrorMessageJson
                   (if fieldname file \<noteq> ''pdf'' then ''Unexpected field''
                    else if mimetype file \<noteq> ''application/pdf'' then ''Only PDF files are allowed''
                    else ''File too large'')\<rparr>,
         []))"
proof (intro conjI ballI impI)
  fix pdfBuffer
  assume m: "pdfBuffer \<in> set (snd (snd (post_api_extract_route E isoNow dbNow db request)))"
  show "\<exists>file. request = Some (file, pdfBuffer) \<and> mimetype file = ''application/pdf'' \<and>
          length pdfBuffer \<le> 10 * 1024 * 1024"
  proof (cases request)
    case None
    then show ?thesis
      using m by (simp add: post_api_extract_route_def upload_single_def multer_single_def post_api_extract_def
          json_response_def)
  next
    case (Some p)
    obtain f c where p: "p = (f, c)" by (cases p)
    have ok: "fieldname f = ''pdf'' \<and> mimetype f = ''application/pdf'' \<and> \<not> limits_fileSize < length c"
      using m Some p
      by (auto simp: post_api_extract_route_def upload_single_def multer_single_def fileFilter_def
          split: if_splits)
    then have "upload_single ''pdf'' request =
        Inr (Some \<lparr>fieldname = fieldname f, originalname = originalname f, mimetype = mimetype f,
                    buffer = c, size = int (length c)\<rparr>)"
      using Some p by (simp add: upload_single_def multer_single_def fileFilter_def)
    then have "set (snd (snd (post_api_extract_route E isoNow dbNow db request))) \<subseteq> {c}"
      by (auto simp: post_api_extract_route_def post_api_extract_def Let_def
          split: sum.splits prod.splits)
    then have "pdfBuffer = c" using m by auto
    then show ?thesis using ok Some p by (auto simp: limits_fileSize_def)
  qed
next
  assume a: "request = Some (file, content) \<and>
    (10 * 1024 * 1024 < length content \<or> mimetype file \<noteq> ''application/pdf'')"
  then show "post_api_extract_route E isoNow dbNow db request =
        (db,
         \<lparr>status = 500, headers = Map.empty,
          body = ErrorMessageJson
                   (if fieldname file \<noteq> ''pdf'' then ''Unexpected field''
                    else if mimetype file \<noteq> ''application/pdf'' then ''Only PDF files are allowed''
                    else ''File too large'')\<rparr>,
         [])"
    by (auto simp: post_api_extract_route_def upload_single_def multer_single_def fileFilter_def
        limits_fileSize_def error_middleware_def json_response_def)
qed

theorem upload_limits_enforced_witness:
  "snd (snd (post_api_extract_route example_env ''2024-01-01T00:00:00.000Z''
               ''2024-01-01 00:00:00'' empty_database
               (Some (\<lparr>fieldname = ''pdf'', originalname = ''empty.pdf'',
                       mimetype = ''application/pdf''\<rparr>, [0x25])))) = [[0x25]] \<and>
   (\<exists>file. Some (\<lparr>fieldname = ''pdf'', originalname = ''empty.pdf'',
                     mimetype = ''application/pdf''\<rparr>, [0x25 :: 8 word]) =
                Some (file, [0x25]) \<and>
           mimetype file = ''application/pdf'' \<and>
           length [0x25 :: 8 word] \<le> 10 * 1024 * 1024) \<and>
   10 * 1024 * 1024 < length (replicate 10485761 (0 :: 8 word)) \<and>
   post_api_extract_route example_env ''2024-01-01T00:00:00.000Z'' ''2024-01-01 00:00:00''
     empty_database
     (Some (\<lparr>fieldname = ''pdf'', originalname = ''big.pdf'', mimetype = ''application/pdf''\<rparr>,
            replicate 10485761 0)) =
     (empty_database,
      \<lparr>status = 500, headers = Map.empty, body = ErrorMessageJson ''File too large''\<rparr>, []) \<and>
   post_api_extract_route example_env ''2024-01-01T00:00:00.000Z'' ''2024-01-01 00:00:00''
     empty_database
     (Some (\<lparr>fieldname = ''pdf'', originalname = ''notes.txt'', mimetype = ''text/plain''\<rparr>,
            [0x25])) =
     (empty_database,
      \<lparr>status = 500, headers = Map.empty, body = ErrorMessageJson ''Only PDF files are allowed''\<rparr>,
      [])"
proof -
  have calls: "snd (snd (post_api_extract_route example_env ''2024-01-01T00:00:00.000Z''
               ''2024-01-01 00:00:00'' empty_database
               (Some (\<lparr>fieldname = ''pdf'', originalname = ''empty.pdf'',
                       mimetype = ''application/pdf''\<rparr>, [0x25])))) = [[0x25]]"
    by (simp add: post_api_extract_route_def upload_single_def multer_single_def fileFilter_def limits_fileSize_def
        post_api_extract_def Let_def createPdfDocument_def userId_or_null_def json_response_def
        example_env_def empty_database_def)
  have big: "10 * 1024 * 1024 < length (replicate 10485761 (0 :: 8 word))"
    by simp
  show ?thesis
    using calls big
      upload_limits_enforced [of example_env "''2024-01-01T00:00:00.000Z''"
        "''2024-01-01 00:00:00''" empty_database
        "Some (\<lparr>fieldname = ''pdf'', originalname = ''empty.pdf'',
                       mimetype = ''application/pdf''\<rparr>, [0x25])"]
      upload_limits_enforced [of example_env "''2024-01-01T00:00:00.000Z''"
        "''2024-01-01 00:00:00''" empty_database
        "Some (\<lparr>fieldname = ''pdf'', originalname = ''big.pdf'', mimetype = ''application/pdf''\<rparr>,
            replicate 10485761 0)"
        "\<lparr>fieldname = ''pdf'', originalname = ''big.pdf'', mimetype = ''application/pdf''\<rparr>"
        "replicate 10485761 0"]
      upload_limits_enforced [of example_env "''2024-01-01T00:00:00.000Z''"
        "''2024-01-01 00:00:00''" empty_database
        "Some (\<lparr>fieldname = ''pdf'', originalname = ''notes.txt'', mimetype = ''text/plain''\<rparr>,
            [0x25])"
        "\<lparr>fieldname = ''pdf'', originalname = ''notes.txt'', mimetype = ''text/plain''\<rparr>"
        "[0x25]"]
    by simp
qed

text \<open>
  Claim C6. When \<open>extractTablesFromPdf\<close> throws, the handler answers status 500 with
  the message of the thrown value (or \<open>Unknown error\<close>) and no tables, and the database
  is unchanged: no document and no table row is stored.
\<close>

theorem unreadable_document_is_reported:
  assumes "extractTablesFromPdf E (buffer file) = Inl error"
  shows "post_api_extract E isoNow dbNow db (Some file) =
           (db, \<lparr>status = 500, headers = Map.empty, body = ErrorJson (error_message error)\<rparr>,
            [buffer file])"
  using assms by (simp add: post_api_extract_def extract_catch_def json_response_def Let_def)

theorem unreadable_document_is_reported_witness:
  "extractTablesFromPdf example_env (buffer (example_file [])) =
     Inl (Error ''Invalid PDF structure'') \<and>
   post_api_extract example_env ''2024-01-01T00:00:00.000Z'' ''2024-01-01 00:00:00''
     example_database (Some (example_file [])) =
     (example_database,
      \<lparr>status = 500, headers = Map.empty, body = ErrorJson ''Invalid PDF structure''\<rparr>,
      [[]])"
proof -
  have a: "extractTablesFromPdf example_env (buffer (example_file [])) =
             Inl (Error ''Invalid PDF structure'')"
    by (simp add: example_env_def example_file_def)
  show ?thesis
    using a unreadable_document_is_reported [OF a, of "''2024-01-01T00:00:00.000Z''"
        "''2024-01-01 00:00:00''" example_database]
    by (simp add: error_message_def example_file_def)
qed


section \<open>Properties of the Excel downloads\<close>

lemma setHeader_cases:
  "setHeader name val hs = Inr hs' \<Longrightarrow> hs' = hs(name \<mapsto> val)"
  by (auto simp: setHeader_def split: if_splits)

lemma send_excel_200:
  assumes "status (send_excel disposition excelBuffer :: ('d, 'i) Response) = 200"
  shows "headers (send_excel disposition excelBuffer :: ('d, 'i) Response) ''Content-Type'' =
           Some ''application/vnd.openxmlformats-officedocument.spreadsheetml.sheet''"
    and "headers (send_excel disposition excelBuffer :: ('d, 'i) Response) ''Content-Disposition'' =
           Some disposition"
    and "body (send_excel disposition excelBuffer :: ('d, 'i) Response) = Sent excelBuffer"
proof -
  have v1: "\<not> checkInvalidHeaderChar xlsx_content_type"
    using assms by (auto simp: send_excel_def excel_catch_def setHeader_def split: if_splits)
  have v2: "\<not> checkInvalidHeaderChar disposition"
    using assms v1 by (auto simp: send_excel_def excel_catch_def setHeader_def split: if_splits)
  have r: "(send_excel disposition excelBuffer :: ('d, 'i) Response) =
      \<lparr>status = 200,
       headers = [''Content-Type'' \<mapsto> xlsx_content_type, ''Content-Disposition'' \<mapsto> disposition],
       body = Sent excelBuffer\<rparr>"
    using v1 v2 by (simp add: send_excel_def setHeader_def)
  show "headers (send_excel disposition excelBuffer :: ('d, 'i) Response) ''Content-Type'' =
           Some ''application/vnd.openxmlformats-officedocument.spreadsheetml.sheet''"
    unfolding r by (simp add: xlsx_content_type_def)
  show "headers (send_excel disposition excelBuffer :: ('d, 'i) Response) ''Content-Disposition'' =
           Some disposition"
    unfolding r by simp
  show "body (send_excel disposition excelBuffer :: ('d, 'i) Response) = Sent excelBuffer"
    unfolding r by simp
qed

text \<open>
  Claim C5. Neither download handler changes the database, whatever the request; and
  when the workbook generator throws, the response of that request is status 500 with
  \<open>Failed to generate Excel file\<close>.
\<close>

theorem workbook_failure_is_request_scoped:
  "fst (get_api_tables_id_excel E db tableId) = db \<and>
   fst (get_api_documents_id_excel E db document_id) = db \<and>
   (getExtractedTable db tid = Some table \<and> generateExcelFile E (tableData table) = Inl error \<longrightarrow>
      get_api_tables_id_excel E db (Some tid) =
        (db, \<lparr>status = 500, headers = Map.empty,
              body = ErrorJson ''Failed to generate Excel file''\<rparr>)) \<and>
   (getPdfDocument db did = Some document \<and>
    getExtractedTablesByDocumentId db did \<noteq> [] \<and>
    generateConsolidatedExcel E (map data (getExtractedTablesByDocumentId db did)) = Inl error' \<longrightarrow>
      get_api_documents_id_excel E db (Some did) =
        (db, \<lparr>status = 500, headers = Map.empty,
              body = ErrorJson ''Failed to generate Excel file''\<rparr>))"
proof (intro conjI impI)
  show "fst (get_api_tables_id_excel E db tableId) = db"
    by (simp add: get_api_tables_id_excel_def split: option.splits sum.splits)
  show "fst (get_api_documents_id_excel E db document_id) = db"
    by (simp add: get_api_documents_id_excel_def Let_def split: option.splits sum.splits)
  show "get_api_tables_id_excel E db (Some tid) =
        (db, \<lparr>status = 500, headers = Map.empty,
              body = ErrorJson ''Failed to generate Excel file''\<rparr>)"
    if "getExtractedTable db tid = Some table \<and> generateExcelFile E (tableData table) = Inl error"
    using that by (simp add: get_api_tables_id_excel_def excel_catch_def)
  show "get_api_documents_id_excel E db (Some did) =
        (db, \<lparr>status = 500, headers = Map.empty,
              body = ErrorJson ''Failed to generate Excel file''\<rparr>)"
    if "getPdfDocument db did = Some document \<and>
        getExtractedTablesByDocumentId db did \<noteq> [] \<and>
        generateConsolidatedExcel E (map data (getExtractedTablesByDocumentId db did)) = Inl error'"
    using that by (simp add: get_api_documents_id_excel_def excel_catch_def Let_def)
qed

theorem workbook_failure_is_request_scoped_witness:
  "getExtractedTable example_database 4 = Some (example_row 4 3 0 []) \<and>
   generateExcelFile example_env (tableData (example_row 4 3 0 [])) = Inl (Error ''Table has no rows'') \<and>
   getPdfDocument example_database 3 = Some (example_document 3 ''blank.pdf'') \<and>
   getExtractedTablesByDocumentId example_database 3 =
     [\<lparr>ExtractedTableData.tableIndex = 0, data = [], info = \<lparr>TableInfo.pageNumber = 1\<rparr>\<rparr>] \<and>
   generateConsolidatedExcel example_env
     (map data (getExtractedTablesByDocumentId example_database 3)) =
     Inl (Error ''Table has no rows'') \<and>
   get_api_tables_id_excel example_env example_database (Some 4) =
     (example_database,
      \<lparr>status = 500, headers = Map.empty, body = ErrorJson ''Failed to generate Excel file''\<rparr>) \<and>
   get_api_documents_id_excel example_env example_database (Some 3) =
     (example_database,
      \<lparr>status = 500, headers = Map.empty, body = ErrorJson ''Failed to generate Excel file''\<rparr>)"
proof -
  have a: "getExtractedTable example_database 4 = Some (example_row 4 3 0 [])"
    by (simp add: getExtractedTable_def destructure_first_def example_database_def
        example_row_def)
  have b: "generateExcelFile example_env (tableData (example_row 4 3 0 [])) =
             Inl (Error ''Table has no rows'')"
    by (simp add: example_env_def example_row_def)
  have c: "getPdfDocument example_database 3 = Some (example_document 3 ''blank.pdf'')"
    by (simp add: getPdfDocument_def destructure_first_def example_database_def
        example_document_def)
  have d: "getExtractedTablesByDocumentId example_database 3 =
     [\<lparr>ExtractedTableData.tableIndex = 0, data = [], info = \<lparr>TableInfo.pageNumber = 1\<rparr>\<rparr>]"
    by (simp add: getExtractedTablesByDocumentId_def to_ExtractedTableData_def
        example_database_def example_row_def)
  have e: "generateConsolidatedExcel example_env
     (map data (getExtractedTablesByDocumentId example_database 3)) =
     Inl (Error ''Table has no rows'')"
    unfolding d by (simp add: example_env_def)
  have f: "getExtractedTablesByDocumentId example_database 3 \<noteq> []"
    unfolding d by simp
  show ?thesis
    using a b c d e f
      workbook_failure_is_request_scoped [of example_env example_database None None 4
        "example_row 4 3 0 []" "Error ''Table has no rows''" 3
        "example_document 3 ''blank.pdf''" "Error ''Table has no rows''"]
    by simp
qed

text \<open>
  Claim C7. Every response with status 200 of either download carries the spreadsheet
  content type, a \<open>Content-Disposition\<close> header with a file name, and the bytes the
  generator returned.
\<close>

theorem excel_download_headers:
  "(status (snd (get_api_tables_id_excel E db tableId)) = 200 \<longrightarrow>
      (\<exists>tid table excelBuffer.
         tableId = Some tid \<and> getExtractedTable db tid = Some table \<and>
         generateExcelFile E (tableData table) = Inr excelBuffer \<and>
         headers (snd (get_api_tables_id_excel E db tableId)) ''Content-Type'' =
           Some ''application/vnd.openxmlformats-officedocument.spreadsheetml.sheet'' \<and>
         headers (snd (get_api_tables_id_excel E db tableId)) ''Content-Disposition'' =
           Some (''attachment; filename=table-'' @ number_toString tid @ ''.xlsx'') \<and>
         body (snd (get_api_tables_id_excel E db tableId)) = Sent excelBuffer)) \<and>
   (status (snd (get_api_documents_id_excel E db document_id)) = 200 \<longrightarrow>
      (\<exists>did document excelBuffer.
         document_id = Some did \<and> getPdfDocument db did = Some document \<and>
         generateConsolidatedExcel E (map data (getExtractedTablesByDocumentId db did)) =
           Inr excelBuffer \<and>
         headers (snd (get_api_documents_id_excel E db document_id)) ''Content-Type'' =
           Some ''application/vnd.openxmlformats-officedocument.spreadsheetml.sheet'' \<and>
         headers (snd (get_api_documents_id_excel E db document_id)) ''Content-Disposition'' =
           Some (''attachment; filename=''
                   @ String_replace ''.pdf'' [] (InsertPdfDocument.filename document)
                   @ ''-tables.xlsx'') \<and>
         body (snd (get_api_documents_id_excel E db document_id)) = Sent excelBuffer))"
proof (intro conjI impI)
  assume ok: "status (snd (get_api_tables_id_excel E db tableId)) = 200"
  then obtain tid where tid: "tableId = Some tid"
    by (cases tableId) (auto simp: get_api_tables_id_excel_def json_response_def)
  from ok tid obtain table where table: "getExtractedTable db tid = Some table"
    by (cases "getExtractedTable db tid") (auto simp: get_api_tables_id_excel_def json_response_def)
  from ok tid table obtain excelBuffer where buf: "generateExcelFile E (tableData table) = Inr excelBuffer"
    by (cases "generateExcelFile E (tableData table)")
       (auto simp: get_api_tables_id_excel_def excel_catch_def)
  have r: "snd (get_api_tables_id_excel E db tableId) =
        send_excel (''attachment; filename=table-'' @ number_toString tid @ ''.xlsx'') excelBuffer"
    using tid table buf by (simp add: get_api_tables_id_excel_def)
  show "\<exists>tid table excelBuffer.
         tableId = Some tid \<and> getExtractedTable db tid = Some table \<and>
         generateExcelFile E (tableData table) = Inr excelBuffer \<and>
         headers (snd (get_api_tables_id_excel E db tableId)) ''Content-Type'' =
           Some ''application/vnd.openxmlformats-officedocument.spreadsheetml.sheet'' \<and>
         headers (snd (get_api_tables_id_excel E db tableId)) ''Content-Disposition'' =
           Some (''attachment; filename=table-'' @ number_toString tid @ ''.xlsx'') \<and>
         body (snd (get_api_tables_id_excel E db tableId)) = Sent excelBuffer"
    using tid table buf send_excel_200[of "''attachment; filename=table-'' @ number_toString tid @ ''.xlsx''" excelBuffer, where ?'d = 'a and ?'i = 'b] ok
    unfolding r by blast
next
  assume ok: "status (snd (get_api_documents_id_excel E db document_id)) = 200"
  then obtain did where did: "document_id = Some did"
    by (cases document_id) (auto simp: get_api_documents_id_excel_def json_response_def)
  from ok did obtain document where doc: "getPdfDocument db did = Some document"
    by (cases "getPdfDocument db did") (auto simp: get_api_documents_id_excel_def json_response_def)
  from ok did doc have ne: "getExtractedTablesByDocumentId db did \<noteq> []"
    by (auto simp: get_api_documents_id_excel_def json_response_def Let_def)
  from ok did doc ne obtain excelBuffer where
    buf: "generateConsolidatedExcel E (map data (getExtractedTablesByDocumentId db did)) = Inr excelBuffer"
    by (cases "generateConsolidatedExcel E (map data (getExtractedTablesByDocumentId db did))")
       (auto simp: get_api_documents_id_excel_def excel_catch_def Let_def)
  let ?disp = "''attachment; filename=''
                   @ String_replace ''.pdf'' [] (InsertPdfDocument.filename document)
                   @ ''-tables.xlsx''"
  have r: "snd (get_api_documents_id_excel E db document_id) = send_excel ?disp excelBuffer"
    using did doc ne buf by (simp add: get_api_documents_id_excel_def Let_def)
  show "\<exists>did document excelBuffer.
         document_id = Some did \<and> getPdfDocument db did = Some document \<and>
         generateConsolidatedExcel E (map data (getExtractedTablesByDocumentId db did)) =
           Inr excelBuffer \<and>
         headers (snd (get_api_documents_id_excel E db document_id)) ''Content-Type'' =
           Some ''application/vnd.openxmlformats-officedocument.spreadsheetml.sheet'' \<and>
         headers (snd (get_api_documents_id_excel E db document_id)) ''Content-Disposition'' =
           Some (''attachment; filename=''
                   @ String_replace ''.pdf'' [] (InsertPdfDocument.filename document)
                   @ ''-tables.xlsx'') \<and>
         body (snd (get_api_documents_id_excel E db document_id)) = Sent excelBuffer"
    using did doc buf send_excel_200[of ?disp excelBuffer, where ?'d = 'a and ?'i = 'b] ok
    unfolding r by blast
qed

theorem excel_download_headers_witness:
  "status (snd (get_api_tables_id_excel example_env example_database (Some 2))) = 200 \<and>
   status (snd (get_api_documents_id_excel example_env example_database (Some 1))) = 200 \<and>
   headers (snd (get_api_tables_id_excel example_env example_database (Some 2))) ''Content-Type'' =
     Some ''application/vnd.openxmlformats-officedocument.spreadsheetml.sheet'' \<and>
   headers (snd (get_api_tables_id_excel example_env example_database (Some 2)))
     ''Content-Disposition'' = Some ''attachment; filename=table-2.xlsx'' \<and>
   body (snd (get_api_tables_id_excel example_env example_database (Some 2))) = Sent [0x50, 0x4B] \<and>
   headers (snd (get_api_documents_id_excel example_env example_database (Some 1))) ''Content-Type'' =
     Some ''application/vnd.openxmlformats-officedocument.spreadsheetml.sheet'' \<and>
   headers (snd (get_api_documents_id_excel example_env example_database (Some 1)))
     ''Content-Disposition'' = Some ''attachment; filename=report-tables.xlsx'' \<and>
   body (snd (get_api_documents_id_excel example_env example_database (Some 1))) =
     Sent [0x50, 0x4B, 0x03]"
proof -
  have t: "getExtractedTable example_database 2 = Some (example_row 2 1 0 [[''a'']])"
    by (simp add: getExtractedTable_def destructure_first_def example_database_def
        example_row_def)
  have g: "generateExcelFile example_env (tableData (example_row 2 1 0 [[''a'']])) = Inr [0x50, 0x4B]"
    by (simp add: example_env_def example_row_def)
  have n: "number_toString 2 = ''2''"
    by (simp add: number_toString_def)
  have v1: "\<not> checkInvalidHeaderChar xlsx_content_type"
    by (simp add: checkInvalidHeaderChar_def xlsx_content_type_def)
  have v2: "\<not> checkInvalidHeaderChar ''attachment; filename=table-2.xlsx''"
    by (simp add: checkInvalidHeaderChar_def)
  have a: "status (snd (get_api_tables_id_excel example_env example_database (Some 2))) = 200"
    using t g n v1 v2 by (simp add: get_api_tables_id_excel_def send_excel_def setHeader_def)
  have d: "getPdfDocument example_database 1 = Some (example_document 1 ''report.pdf'')"
    by (simp add: getPdfDocument_def destructure_first_def example_database_def
        example_document_def)
  have l: "map data (getExtractedTablesByDocumentId example_database 1) =
             [[[''a'']], [[''b'']], [[''c'']]]"
    by (simp add: getExtractedTablesByDocumentId_def to_ExtractedTableData_def
        example_database_def example_row_def)
  have c: "generateConsolidatedExcel example_env [[[''a'']], [[''b'']], [[''c'']]] =
             Inr [0x50, 0x4B, 0x03]"
    by (simp add: example_env_def)
  have r: "String_replace ''.pdf'' [] (InsertPdfDocument.filename (example_document 1 ''report.pdf'')) =
             ''report''"
    by (simp add: example_document_def)
  have v3: "\<not> checkInvalidHeaderChar ''attachment; filename=report-tables.xlsx''"
    by (simp add: checkInvalidHeaderChar_def)
  have ne: "getExtractedTablesByDocumentId example_database 1 \<noteq> []"
    using l by auto
  have b: "status (snd (get_api_documents_id_excel example_env example_database (Some 1))) = 200"
    using d l c r v1 v3 ne
    by (simp add: get_api_documents_id_excel_def Let_def send_excel_def setHeader_def)
  show ?thesis
    using a b t g n d l c r
      excel_download_headers [of example_env example_database "Some 2" "Some 1"]
    by auto
qed

text \<open>
  Claim C10. For a stored document without extracted tables the consolidated download
  answers status 404 with \<open>No tables found in document\<close>, and the database is
  unchanged.
\<close>

theorem no_tables_is_404:
  assumes "getPdfDocument db did = Some document"
    and "filter (\<lambda>row. documentId row = did) (extractedTables db) = []"
  shows "get_api_documents_id_excel E db (Some did) =
           (db, \<lparr>status = 404, headers = Map.empty,
                 body = ErrorJson ''No tables found in document''\<rparr>)"
  using assms
  by (simp add: get_api_documents_id_excel_def getExtractedTablesByDocumentId_def
      json_response_def)

theorem no_tables_is_404_witness:
  "getPdfDocument example_database 2 = Some (example_document 2 ''empty.pdf'') \<and>
   filter (\<lambda>row. documentId row = 2) (extractedTables example_database) = [] \<and>
   get_api_documents_id_excel example_env example_database (Some 2) =
     (example_database,
      \<lparr>status = 404, headers = Map.empty, body = ErrorJson ''No tables found in document''\<rparr>)"
proof -
  have a: "getPdfDocument example_database 2 = Some (example_document 2 ''empty.pdf'')"
    by (simp add: getPdfDocument_def destructure_first_def example_database_def
        example_document_def)
  have b: "filter (\<lambda>row. documentId row = 2) (extractedTables example_database) = []"
    by (simp add: example_database_def example_row_def)
  show ?thesis
    using a b no_tables_is_404 [OF a b, of example_env] by simp
qed

end
